theory Spec2Isabelle
  imports Main "HOL-Library.Sublist"
begin

section \<open>JavaScript values\<close>

text \<open>
  The handlers of \<^verbatim>\<open>src/index.ts\<close> are asynchronous functions; a rejected promise or a thrown
  exception is the left summand of the result, the resolved value the right one.
  \<open>SystemError p\<close> is a rejected file-system call on path \<open>p\<close>, \<open>TypeError\<close> the
  exception the runtime throws on a value of the wrong type.
\<close>

datatype js_error = TypeError string | SystemError string

text \<open>
  A captured template variable has the type \<^verbatim>\<open>string | string[]\<close>.
\<close>

datatype variable = Single string | Multi "string list"

text \<open>\<^verbatim>\<open>Array.prototype.join\<close>.\<close>

fun js_join :: "string \<Rightarrow> string list \<Rightarrow> string" where
  "js_join sep [] = []"
| "js_join sep [x] = x"
| "js_join sep (x # y # ys) = x @ sep @ js_join sep (y # ys)"

text \<open>
  A template literal \<^verbatim>\<open>${v}\<close> converts \<open>v\<close> to a string: a string is itself, an array
  is its elements joined by commas.
\<close>

fun to_string :: "variable \<Rightarrow> string" where
  "to_string (Single s) = s"
| "to_string (Multi xs) = js_join '','' xs"

text \<open>
  A string is modelled by the bytes of its UTF-8 encoding, so a character outside ASCII
  is a sequence of bytes from 128 on.

  \<^verbatim>\<open>String.prototype.toLowerCase\<close> follows the case tables of Unicode. On a string of
  ASCII characters these map the letters \<^verbatim>\<open>A\<close> to \<^verbatim>\<open>Z\<close> to \<^verbatim>\<open>a\<close> to \<^verbatim>\<open>z\<close> and leave every
  other character as it is. For a string with a character outside ASCII the tables of
  the runtime decide; they are not part of the repository and are the parameter
  \<open>unicodeLower\<close>, which receives the whole string (the conversion of a character may
  depend on its neighbours).
\<close>

definition is_ascii :: "char \<Rightarrow> bool" where
  "is_ascii c = ((of_char c :: nat) < 128)"

definition ascii_lower :: "char \<Rightarrow> char" where
  "ascii_lower c =
     (let n = (of_char c :: nat) in if 65 \<le> n \<and> n \<le> 90 then char_of (n + 32) else c)"

definition toLowerCase :: "(string \<Rightarrow> string) \<Rightarrow> string \<Rightarrow> string" where
  "toLowerCase unicodeLower s =
     (if list_all is_ascii s then map ascii_lower s else unicodeLower s)"

definition quote :: string where
  "quote = [CHR 0x27]"

subsection \<open>\<^verbatim>\<open>String.prototype.replace\<close> with a string pattern\<close>

text \<open>
  The first occurrence of the pattern, as the text in front of it and the text behind it.
\<close>

fun split_first :: "string \<Rightarrow> string \<Rightarrow> (string \<times> string) option" where
  "split_first pat [] = (if pat = [] then Some ([], []) else None)"
| "split_first pat (c # cs) =
     (if prefix pat (c # cs) then Some ([], drop (length pat) (c # cs))
      else (case split_first pat cs of
              None \<Rightarrow> None
            | Some (preceding, following) \<Rightarrow> Some (c # preceding, following)))"

text \<open>
  The replacement text is expanded when it is inserted (ECMAScript's GetSubstitution,
  with no capture groups as the pattern is a string): \<^verbatim>\<open>$$\<close> is a dollar sign,
  \<^verbatim>\<open>$&\<close> the matched text, \<^verbatim>\<open>$`\<close> the text in front of the match, \<^verbatim>\<open>$'\<close> the text
  behind it; a dollar sign followed by anything else stands for itself.
\<close>

fun get_substitution :: "string \<Rightarrow> string \<Rightarrow> string \<Rightarrow> string \<Rightarrow> string" where
  "get_substitution matched preceding following [] = []"
| "get_substitution matched preceding following [c] = [c]"
| "get_substitution matched preceding following (c # d # r) =
     (if c = CHR ''$'' then
        (if d = CHR ''$'' then CHR ''$'' # get_substitution matched preceding following r
         else if d = CHR ''&'' then matched @ get_substitution matched preceding following r
         else if d = CHR 0x60 then preceding @ get_substitution matched preceding following r
         else if d = CHR 0x27 then following @ get_substitution matched preceding following r
         else c # get_substitution matched preceding following (d # r))
      else c # get_substitution matched preceding following (d # r))"

definition js_replace :: "string \<Rightarrow> string \<Rightarrow> string \<Rightarrow> string" where
  "js_replace pat replacement s =
     (case split_first pat s of
        None \<Rightarrow> s
      | Some (preceding, following) \<Rightarrow> preceding @ get_substitution pat preceding following replacement @ following)"

section \<open>Paths and the file system\<close>

text \<open>
  \<^verbatim>\<open>path.join\<close> of Node.js on POSIX: the non-empty arguments are joined by a slash and
  the result is normalised. Normalisation drops empty and \<^verbatim>\<open>.\<close> segments and lets a
  \<^verbatim>\<open>..\<close> segment remove the segment in front of it; above the root of an absolute path a
  \<^verbatim>\<open>..\<close> is dropped, in a relative path it is kept.
\<close>

fun split_on :: "char \<Rightarrow> string \<Rightarrow> string list" where
  "split_on sep [] = [[]]"
| "split_on sep (c # cs) =
     (if c = sep then [] # split_on sep cs
      else (case split_on sep cs of
              [] \<Rightarrow> [[c]]
            | s # ss \<Rightarrow> (c # s) # ss))"

fun normalizeString :: "bool \<Rightarrow> string list \<Rightarrow> string list \<Rightarrow> string list" where
  "normalizeString allowAboveRoot res [] = res"
| "normalizeString allowAboveRoot res (s # ss) =
     (if s = [] \<or> s = ''.'' then normalizeString allowAboveRoot res ss
      else if s = ''..'' then
        (if res \<noteq> [] \<and> last res \<noteq> ''..'' then normalizeString allowAboveRoot (butlast res) ss
         else if allowAboveRoot then normalizeString allowAboveRoot (res @ [''..'']) ss
         else normalizeString allowAboveRoot res ss)
      else normalizeString allowAboveRoot (res @ [s]) ss)"

definition normalize :: "string \<Rightarrow> string" where
  "normalize path =
     (if path = [] then ''.''
      else
        (let isAbsolute = (hd path = CHR ''/'');
             trailingSeparator = (last path = CHR ''/'');
             p = js_join ''/'' (normalizeString (\<not> isAbsolute) [] (split_on CHR ''/'' path))
         in if p = [] then (if isAbsolute then ''/'' else if trailingSeparator then ''./'' else ''.'')
            else (let p' = (if trailingSeparator then p @ ''/'' else p)
                  in if isAbsolute then CHR ''/'' # p' else p')))"

definition path_join :: "string list \<Rightarrow> string" where
  "path_join args =
     (let parts = filter (\<lambda>arg. arg \<noteq> []) args
      in if parts = [] then ''.'' else normalize (js_join ''/'' parts))"

text \<open>
  The file system as the handlers see it: the working directory of the process, the
  readable files by path with their text, and the directories by path with their
  entries in the order \<^verbatim>\<open>readdir\<close> enumerates them. The handlers only read it.
\<close>

record file_system =
  cwd :: string
  files :: "string \<rightharpoonup> string"
  dirs :: "string \<rightharpoonup> string list"

definition readFile :: "file_system \<Rightarrow> string \<Rightarrow> js_error + string" where
  "readFile fs p = (case files fs p of Some t \<Rightarrow> Inr t | None \<Rightarrow> Inl (SystemError p))"

definition readdir :: "file_system \<Rightarrow> string \<Rightarrow> js_error + string list" where
  "readdir fs p = (case dirs fs p of Some es \<Rightarrow> Inr es | None \<Rightarrow> Inl (SystemError p))"

section \<open>Resources\<close>

record content =
  uri :: string
  content_text :: string
  mimeType :: "string option"

type_synonym read_result = "js_error + content list"

definition greeting :: "file_system \<Rightarrow> string \<Rightarrow> variable \<Rightarrow> read_result" where
  "greeting fs href name =
     Inr [\<lparr>uri = href,
           content_text = ''Hello, '' @ to_string name @ ''! This is your personal MCP server.'',
           mimeType = None\<rparr>]"

definition core_principles :: "file_system \<Rightarrow> string \<Rightarrow> read_result" where
  "core_principles fs href =
     Inr [\<lparr>uri = href,
           content_text = ''## Core Principles\<newline>\<newline>- **Consistency First**: All code should follow established patterns and standards\<newline>- **Object-Oriented Preference**: Favor OOP design patterns unless functional programming is more appropriate for the specific use case\<newline>- **Self-Documenting Code**: Write code that explains itself through clear naming and structure\<newline>- **Containerized Development**: All projects should be Docker-ready from the start\<newline>- **Maintainability**: Code should be easy to read, modify, and extend'',
           mimeType = None\<rparr>]"

text \<open>
  Lines 66 to 68: an array is replaced by its first element, which is
  \<^verbatim>\<open>undefined\<close> (here \<open>None\<close>) for the empty array.
\<close>

fun first_of_array :: "variable \<Rightarrow> string option" where
  "first_of_array (Single s) = Some s"
| "first_of_array (Multi []) = None"
| "first_of_array (Multi (x # xs)) = Some x"

definition language_standards ::
  "(string \<Rightarrow> string) \<Rightarrow> file_system \<Rightarrow> string \<Rightarrow> variable \<Rightarrow> read_result" where
  "language_standards unicodeLower fs href languageName =
     (case first_of_array languageName of
        None \<Rightarrow> Inl (TypeError ''toLowerCase of undefined'')
      | Some languageName' \<Rightarrow>
          (let lowerLang = toLowerCase unicodeLower languageName';
               filePath = path_join [cwd fs, ''standards'', lowerLang @ ''.md'']
           in case readFile fs filePath of
                Inr standardsText \<Rightarrow>
                  Inr [\<lparr>uri = href, content_text = standardsText,
                        mimeType = Some ''text/markdown''\<rparr>]
              | Inl error \<Rightarrow>
                  Inr [\<lparr>uri = href,
                        content_text =
                          ''No specific coding standards found for '' @ quote @ languageName'
                            @ quote @ ''.'',
                        mimeType = Some ''text/plain''\<rparr>]))"

definition claude_rules :: "file_system \<Rightarrow> string \<Rightarrow> read_result" where
  "claude_rules fs href =
     (let filePath = path_join [cwd fs, ''context-template'', ''CLAUDE.md'']
      in case readFile fs filePath of
           Inl error \<Rightarrow> Inl error
         | Inr fileContent \<Rightarrow>
             Inr [\<lparr>uri = href, content_text = fileContent, mimeType = None\<rparr>])"

definition prp_base_template :: "file_system \<Rightarrow> string \<Rightarrow> read_result" where
  "prp_base_template fs href =
     (let filePath = path_join [cwd fs, ''context-template'', ''PRPs'', ''templates'', ''prp_base.md'']
      in case readFile fs filePath of
           Inl error \<Rightarrow> Inl error
         | Inr fileContent \<Rightarrow>
             Inr [\<lparr>uri = href, content_text = fileContent, mimeType = None\<rparr>])"

text \<open>
  The examples handler compares the captured value with \<^verbatim>\<open>'list'\<close> by strict equality,
  which no array satisfies, and passes it to \<^verbatim>\<open>path.join\<close> outside the
  \<^verbatim>\<open>try\<close> block; \<^verbatim>\<open>path.join\<close> throws a type error on an argument that is not a
  string (the cast \<^verbatim>\<open>as string\<close> is erased at run time).
\<close>

definition examples :: "file_system \<Rightarrow> string \<Rightarrow> variable \<Rightarrow> read_result" where
  "examples fs href exampleName =
     (let examplesDir = path_join [cwd fs, ''context-template'', ''examples'']
      in if exampleName = Single ''list'' then
           (case readdir fs examplesDir of
              Inl error \<Rightarrow> Inl error
            | Inr entries \<Rightarrow>
                (let fileList = js_join ''\<newline>'' (map (\<lambda>file. ''- '' @ file) entries)
                 in Inr [\<lparr>uri = href,
                          content_text = ''Available examples:\<newline>'' @ fileList,
                          mimeType = Some ''text/markdown''\<rparr>]))
         else
           (case exampleName of
              Multi vs \<Rightarrow> Inl (TypeError ''The path argument must be of type string'')
            | Single name \<Rightarrow>
                (case readFile fs (path_join [examplesDir, name]) of
                   Inr fileContent \<Rightarrow>
                     Inr [\<lparr>uri = href, content_text = fileContent,
                           mimeType = Some ''text/plain''\<rparr>]
                 | Inl error \<Rightarrow>
                     Inr [\<lparr>uri = href,
                           content_text = ''Example '' @ quote @ name @ quote @ '' not found.'',
                           mimeType = Some ''text/plain''\<rparr>])))"

section \<open>Prompts\<close>

record prompt_message =
  role :: string
  content_type :: string
  message_text :: string

type_synonym prompt_result = "js_error + prompt_message list"

definition placeholder :: string where
  "placeholder = ''[What needs to be built - be specific about the end state and desires]''"

definition generate_prp :: "file_system \<Rightarrow> string \<Rightarrow> prompt_result" where
  "generate_prp fs initialContent =
     (let templatePath = path_join [cwd fs, ''context-template'', ''PRPs'', ''templates'', ''prp_base.md'']
      in case readFile fs templatePath of
           Inl error \<Rightarrow> Inl error
         | Inr templateContent \<Rightarrow>
             (let prpContent = js_replace placeholder initialContent templateContent
              in Inr [\<lparr>role = ''user'', content_type = ''text'', message_text = prpContent\<rparr>]))"

definition execute_prp :: "file_system \<Rightarrow> string \<Rightarrow> prompt_result" where
  "execute_prp fs prpContent =
     (let executionInstructions =
            ''\<newline># Execute BASE PRP\<newline>\<newline>Implement a feature using using the PRP file.\<newline>\<newline>## PRP File: \<newline>\<newline>''
            @ prpContent @
            ''\<newline>\<newline>## Execution Process\<newline>\<newline>1. **Load PRP**\<newline>   - Read the specified PRP file\<newline>   - Understand all context and requirements\<newline>   - Follow all instructions in the PRP and extend the research if needed\<newline>   - Ensure you have all needed context to implement the PRP fully\<newline>   - Do more web searches and codebase exploration as needed\<newline>\<newline>2. **ULTRATHINK**\<newline>   - Think hard before you execute the plan. Create a comprehensive plan addressing all requirements.\<newline>   - Break down complex tasks into smaller, manageable steps using your todos tools.\<newline>   - Use the TodoWrite tool to create and track your implementation plan.\<newline>   - Identify implementation patterns from existing code to follow.\<newline>\<newline>3. **Execute the plan**\<newline>   - Execute the PRP\<newline>   - Implement all the code\<newline>\<newline>4. **Validate**\<newline>   - Run each validation command\<newline>   - Fix any failures\<newline>   - Re-run until all pass\<newline>\<newline>5. **Complete**\<newline>   - Ensure all checklist items done\<newline>   - Run final validation suite\<newline>   - Report completion status\<newline>   - Read the PRP again to ensure you have implemented everything\<newline>\<newline>6. **Reference the PRP**\<newline>   - You can always reference the PRP again if needed\<newline>\<newline>Note: If validation fails, use error patterns in PRP to fix and retry.\<newline>      ''
      in Inr [\<lparr>role = ''user'', content_type = ''text'', message_text = executionInstructions\<rparr>])"

section \<open>The server and the HTTP endpoint\<close>

text \<open>
  A literal identifier is registered as a \<open>Resource\<close>, a templated one as a \<open>Template\<close>;
  each carries its registered name, its identifier and its handler. A server object
  holds its name, its version and what has been registered on it.
\<close>

datatype resource =
    Resource string string "file_system \<Rightarrow> string \<Rightarrow> read_result"
  | Template string string "file_system \<Rightarrow> string \<Rightarrow> variable \<Rightarrow> read_result"

record mcp_server =
  server_name :: string
  server_version :: string
  resources :: "resource list"
  prompts :: "(string \<times> (file_system \<Rightarrow> string \<Rightarrow> prompt_result)) list"

text \<open>
  Server objects live in a store and are referred to by their address, the position in
  the store. \<^verbatim>\<open>new McpServer\<close> puts a new object with nothing registered at the next free
  address; \<^verbatim>\<open>registerResource\<close> and \<^verbatim>\<open>registerPrompt\<close> add an entry to the object at the
  address they are called on. (What the library does with a name that is registered
  twice is not modelled; \<^verbatim>\<open>getServer\<close> registers each name once.)
\<close>

type_synonym address = nat

definition new_McpServer :: "string \<Rightarrow> string \<Rightarrow> mcp_server list \<Rightarrow> mcp_server list \<times> address" where
  "new_McpServer name version h =
     (h @ [\<lparr>server_name = name, server_version = version, resources = [], prompts = []\<rparr>],
      length h)"

definition registerResource :: "address \<Rightarrow> resource \<Rightarrow> mcp_server list \<Rightarrow> mcp_server list" where
  "registerResource server r h =
     h[server := (h ! server)\<lparr>resources := resources (h ! server) @ [r]\<rparr>]"

definition registerPrompt ::
  "address \<Rightarrow> string \<Rightarrow> (file_system \<Rightarrow> string \<Rightarrow> prompt_result) \<Rightarrow> mcp_server list
     \<Rightarrow> mcp_server list" where
  "registerPrompt server name cb h =
     h[server := (h ! server)\<lparr>prompts := prompts (h ! server) @ [(name, cb)]\<rparr>]"

text \<open>
  \<^verbatim>\<open>getServer\<close> creates a server and registers six resources and two prompts on it, in
  this order, and returns it.
\<close>

definition getServer :: "(string \<Rightarrow> string) \<Rightarrow> mcp_server list \<Rightarrow> mcp_server list \<times> address" where
  "getServer unicodeLower h0 =
     (let (h1, server) = new_McpServer ''personal-mcp-server'' ''1.0.0'' h0;
          h2 = registerResource server (Template ''greeting'' ''greeting://{name}'' greeting) h1;
          h3 = registerResource server
                 (Resource ''core-principles'' ''principles://core'' core_principles) h2;
          h4 = registerResource server
                 (Template ''language-standards'' ''standards://language/{languageName}''
                    (language_standards unicodeLower)) h3;
          h5 = registerResource server (Resource ''claude-rules'' ''rules://claude.md'' claude_rules) h4;
          h6 = registerResource server
                 (Resource ''prp-base-template'' ''templates://prp_base.md'' prp_base_template) h5;
          h7 = registerResource server (Template ''examples'' ''examples://{exampleName}'' examples) h6;
          h8 = registerPrompt server ''generate-prp'' generate_prp h7;
          h9 = registerPrompt server ''execute-prp'' execute_prp h8
      in (h9, server))"

text \<open>
  The JSON values the endpoint itself writes, and the response object of the HTTP
  framework: its status code, whether the headers have been sent, whether the response
  has been ended, and the chunks written to the body so far.
\<close>

datatype json =
    JNull | JNumber int | JString string | JArray "json list" | JObject "(string \<times> json) list"

datatype chunk = Text string | Stringified json

record response =
  statusCode :: nat
  headersSent :: bool
  writableEnded :: bool
  body :: "chunk list"

definition fresh_response :: response where
  "fresh_response = \<lparr>statusCode = 200, headersSent = False, writableEnded = False, body = []\<rparr>"

definition res_status :: "nat \<Rightarrow> response \<Rightarrow> response" where
  "res_status code res = res\<lparr>statusCode := code\<rparr>"

definition res_writeHead :: "nat \<Rightarrow> response \<Rightarrow> response" where
  "res_writeHead code res = res\<lparr>statusCode := code\<rparr>"

definition res_end :: "chunk \<Rightarrow> response \<Rightarrow> response" where
  "res_end data res = res\<lparr>headersSent := True, writableEnded := True, body := body res @ [data]\<rparr>"

definition res_json :: "json \<Rightarrow> response \<Rightarrow> response" where
  "res_json obj res = res_end (Stringified obj) res"

text \<open>
  The state that outlives a request: the file system, the lines written by
  \<^verbatim>\<open>console.error\<close>, and the store of server objects.
\<close>

record world =
  disk :: file_system
  console :: "js_error list"
  servers :: "mcp_server list"

text \<open>
  The protocol library (\<^verbatim>\<open>server.connect\<close>, \<^verbatim>\<open>transport.handleRequest\<close> and what runs
  when the response closes) is not part of the repository. It is a parameter here:
  given the store, the address of the server built for this request, the file system
  the handlers read, the parsed request body and the response object, it returns the
  store and the response object as it left them, and the exception it threw, if any.
\<close>

type_synonym transport =
  "mcp_server list \<Rightarrow> address \<Rightarrow> file_system \<Rightarrow> json \<Rightarrow> response
     \<Rightarrow> mcp_server list \<times> response \<times> js_error option"

definition app_post :: "(string \<Rightarrow> string) \<Rightarrow> transport \<Rightarrow> world \<Rightarrow> json \<Rightarrow> world \<times> response" where
  "app_post unicodeLower handleRequest w req =
     (let (h, server) = getServer unicodeLower (servers w)
      in case handleRequest h server (disk w) req fresh_response of
           (h', res, None) \<Rightarrow> (w\<lparr>servers := h'\<rparr>, res)
         | (h', res, Some error) \<Rightarrow>
             (w\<lparr>console := console w @ [error], servers := h'\<rparr>,
              if \<not> headersSent res then
                res_json
                  (JObject
                     [(''jsonrpc'', JString ''2.0''),
                      (''error'',
                       JObject [(''code'', JNumber (- 32603)),
                                (''message'', JString ''Internal server error'')]),
                      (''id'', JNull)])
                  (res_status 500 res)
              else res))"

definition app_get :: "json \<Rightarrow> response" where
  "app_get req =
     res_end
       (Stringified
          (JObject
             [(''jsonrpc'', JString ''2.0''),
              (''error'',
               JObject [(''code'', JNumber (- 32000)),
                        (''message'', JString ''Method not allowed.'')]),
              (''id'', JNull)]))
       (res_writeHead 405 fresh_response)"

definition app_delete :: "json \<Rightarrow> response" where
  "app_delete req =
     res_end
       (Stringified
          (JObject
             [(''jsonrpc'', JString ''2.0''),
              (''error'',
               JObject [(''code'', JNumber (- 32000)),
                        (''message'', JString ''Method not allowed.'')]),
              (''id'', JNull)]))
       (res_writeHead 405 fresh_response)"

text \<open>
  Reading an envelope: the member of an object by key, the error code and message of an
  error envelope, and the result of a success envelope.
\<close>

fun member :: "json \<Rightarrow> string \<Rightarrow> json option" where
  "member (JObject kvs) k = map_of kvs k"
| "member j k = None"

definition envelope_error :: "json \<Rightarrow> (json \<times> json) option" where
  "envelope_error env =
     (case member env ''error'' of
        None \<Rightarrow> None
      | Some err \<Rightarrow>
          (case (member err ''code'', member err ''message'') of
             (Some c, Some m) \<Rightarrow> Some (c, m)
           | other \<Rightarrow> None))"

definition envelope_result :: "json \<Rightarrow> json option" where
  "envelope_result env = member env ''result''"

section \<open>The dispatcher of the specification\<close>

text \<open>
  Modelled from the spec: the serialised form of a content item, which the protocol
  library produces and the repository does not contain. A content item has "a source
  URI, a text body, and an optional media-type label".
\<close>

definition content_json :: "content \<Rightarrow> json" where
  "content_json c =
     JObject
       ([(''uri'', JString (uri c)), (''text'', JString (content_text c))] @
        (case mimeType c of None \<Rightarrow> [] | Some m \<Rightarrow> [(''mimeType'', JString m)]))"

text \<open>
  Modelled from the spec: the matching of an identifier against a templated identifier,
  which the protocol library performs and the repository does not contain. Lookup is
  "exact-match on the literal part and single-capture on the templated part": the
  identifier has to start with the text in front of the placeholder, and what follows
  is the captured value.
\<close>

definition capture :: "string \<Rightarrow> string \<Rightarrow> variable option" where
  "capture template u =
     (let literal = takeWhile (\<lambda>c. c \<noteq> CHR 0x7B) template
      in if prefix literal u \<and> length literal < length u
         then Some (Single (drop (length literal) u)) else None)"

text \<open>
  Modelled from the spec: the routing of an identifier to a registered handler, which
  the protocol library performs and the repository does not contain. The registry is
  "a mapping from a resource identifier (static string or templated pattern with one
  placeholder) to a handler function"; an identifier that nothing matches has no
  handler.
\<close>

fun route :: "resource list \<Rightarrow> string \<Rightarrow> (file_system \<Rightarrow> string \<Rightarrow> read_result) option" where
  "route [] u = None"
| "route (Resource n i handler # rs) u = (if i = u then Some handler else route rs u)"
| "route (Template n t handler # rs) u =
     (case capture t u of
        Some v \<Rightarrow> Some (\<lambda>fs href. handler fs href v)
      | None \<Rightarrow> route rs u)"

text \<open>
  Modelled from the spec: the request dispatcher's handling of a request for a resource,
  which the protocol library performs and the repository does not contain. The
  dispatcher "receives one request object, [...] routes the request to the matching
  handler, and serializes the handler's result (or a fatal-error envelope) into the
  response"; "unregistered identifiers must fail with a routing error"; the success
  envelope is \<^verbatim>\<open>{ id, result }\<close>. An exception of the handler is not handled here: it is
  the "unhandled exception during handling" that the endpoint answers with its
  fatal-error envelope. A request is an object with the members \<^verbatim>\<open>id\<close> and \<^verbatim>\<open>uri\<close>.
\<close>

definition dispatch :: transport where
  "dispatch h server fs req res =
     (case (member req ''id'', member req ''uri'') of
        (Some i, Some (JString u)) \<Rightarrow>
          (case route (resources (h ! server)) u of
             None \<Rightarrow> (h, res, Some (TypeError ''no handler for the identifier''))
           | Some handler \<Rightarrow>
               (case handler fs u of
                  Inl e \<Rightarrow> (h, res, Some e)
                | Inr cs \<Rightarrow>
                    (h,
                     res_json
                       (JObject
                          [(''id'', i),
                           (''result'', JObject [(''contents'', JArray (map content_json cs))])])
                       res,
                     None)))
      | other \<Rightarrow> (h, res, Some (TypeError ''malformed request'')))"

section \<open>Notions the properties speak about\<close>

text \<open>
  The entries of a markdown bullet list: the lines that start with a dash and a space,
  without that marker.
\<close>

definition bullet_entries :: "string \<Rightarrow> string list" where
  "bullet_entries t = map (drop 2) (filter (prefix ''- '') (split_on CHR 0x0A t))"

text \<open>A path lies inside a directory when it continues the directory's path with a slash.\<close>

definition inside :: "string \<Rightarrow> string \<Rightarrow> bool" where
  "inside dir p = prefix (dir @ ''/'') p"

text \<open>
  Two file systems for concrete runs: one with the files and the examples directory the
  server expects (one of them has a name that starts with a small e with an acute
  accent, the bytes C3 A9) and one file outside its working directory, one with
  nothing in it.
\<close>

definition demo_fs :: file_system where
  "demo_fs =
     \<lparr>cwd = ''/srv/mcp'',
      files =
        [''/srv/mcp/standards/go.md'' \<mapsto> ''## Coding Standards (Go)'',
         ''/srv/mcp/context-template/CLAUDE.md'' \<mapsto> ''# Rules'',
         ''/srv/mcp/context-template/examples/cli.ts'' \<mapsto> ''console.log(1)'',
         ''/srv/mcp/context-template/PRPs/templates/prp_base.md'' \<mapsto>
            ''## Goal\<newline>'' @ placeholder @ ''\<newline>## Why'',
         ''/srv/secret.md'' \<mapsto> ''s3cret'',
         ''/srv/mcp/standards/'' @ [CHR 0xC3, CHR 0xA9] @ ''cole.md'' \<mapsto> ''## Normes''],
      dirs = [''/srv/mcp/context-template/examples'' \<mapsto> [''cli.ts'', ''README.md'']]\<rparr>"

definition bare_fs :: file_system where
  "bare_fs = \<lparr>cwd = ''/srv/mcp'', files = Map.empty, dirs = Map.empty\<rparr>"

text \<open>
  A case table for concrete runs: the capital letters of the Latin-1 supplement
  (\<open>U+00C0\<close> to \<open>U+00DE\<close> without \<open>U+00D7\<close>, in UTF-8 the byte C3 and a byte from 80 to 9E) go
  to their small letters, 32 further on, and ASCII letters to theirs.
\<close>

fun latin1_lower :: "string \<Rightarrow> string" where
  "latin1_lower [] = []"
| "latin1_lower [c] = [ascii_lower c]"
| "latin1_lower (c # d # r) =
     (if c = CHR 0xC3 \<and> 128 \<le> (of_char d :: nat) \<and> (of_char d :: nat) \<le> 158 \<and> d \<noteq> CHR 0x97
      then c # char_of ((of_char d :: nat) + 32) # latin1_lower r
      else ascii_lower c # latin1_lower (d # r))"

text \<open>
  Stand-ins for the protocol library in concrete runs. The first answers a request for a
  literal resource identifier with the handler's outcome in an envelope and throws on
  every other request before it has written anything; when it is done it clears the
  registry of the server it was handed, so that a later request that were handed the
  same server could not be answered. The second throws after it has started the
  response.
\<close>

fun find_resource :: "resource list \<Rightarrow> string \<Rightarrow> (file_system \<Rightarrow> string \<Rightarrow> read_result) option" where
  "find_resource [] u = None"
| "find_resource (Resource n i h # rs) u = (if i = u then Some h else find_resource rs u)"
| "find_resource (Template n i h # rs) u = find_resource rs u"

definition literal_transport :: transport where
  "literal_transport h server fs req res =
     (let closed = h[server := (h ! server)\<lparr>resources := [], prompts := []\<rparr>]
      in case req of
           JString u \<Rightarrow>
             (case find_resource (resources (h ! server)) u of
                None \<Rightarrow> (closed, res, Some (TypeError ''no route''))
              | Some handler \<Rightarrow>
                  (case handler fs u of
                     Inl e \<Rightarrow>
                       (closed,
                        res_json
                          (JObject
                             [(''jsonrpc'', JString ''2.0''), (''id'', JNull),
                              (''error'',
                               JObject [(''code'', JNumber (- 32603)),
                                        (''message'', JString ''Internal error'')])])
                          res,
                        None)
                   | Inr cs \<Rightarrow>
                       (closed,
                        res_json
                          (JObject
                             [(''jsonrpc'', JString ''2.0''), (''id'', JNull),
                              (''result'', JObject [(''contents'', JArray (map content_json cs))])])
                          res,
                        None)))
         | other \<Rightarrow> (closed, res, Some (TypeError ''malformed request'')))"

definition late_failing_transport :: transport where
  "late_failing_transport h server fs req res =
     (h, res\<lparr>headersSent := True, body := body res @ [Text ''event: message'']\<rparr>,
      Some (SystemError ''EPIPE''))"

definition demo_world :: world where
  "demo_world = \<lparr>disk = demo_fs, console = [], servers = []\<rparr>"

definition bare_world :: world where
  "bare_world = \<lparr>disk = bare_fs, console = [], servers = []\<rparr>"

section \<open>Auxiliary facts\<close>

subsection \<open>Splitting into lines\<close>

lemma split_on_no_sep: "c \<notin> set s \<Longrightarrow> split_on c s = [s]"
  by (induction s) auto

lemma split_on_append: "c \<notin> set s \<Longrightarrow> split_on c (s @ c # r) = s # split_on c r"
  by (induction s) auto

lemma split_on_join:
  "xs \<noteq> [] \<Longrightarrow> \<forall>x\<in>set xs. c \<notin> set x \<Longrightarrow> split_on c (js_join [c] xs) = xs"
proof (induction "[c]" xs rule: js_join.induct)
  case 1
  then show ?case by simp
next
  case (2 x)
  then show ?case by (simp add: split_on_no_sep)
next
  case (3 x y ys)
  then show ?case by (simp add: split_on_append)
qed

lemma bullets_of_listing:
  assumes "\<forall>e\<in>set entries. CHR 0x0A \<notin> set e"
  shows "bullet_entries (''Available examples:\<newline>'' @ js_join ''\<newline>'' (map ((@) ''- '') entries)) = entries"
proof -
  let ?bs = "map ((@) ''- '') entries"
  have hd: "split_on CHR 0x0A (''Available examples:\<newline>'' @ js_join ''\<newline>'' ?bs)
        = ''Available examples:'' # split_on CHR 0x0A (js_join ''\<newline>'' ?bs)"
    using split_on_append [of "CHR 0x0A" "''Available examples:''" "js_join ''\<newline>'' ?bs"] by simp
  show ?thesis
  proof (cases entries)
    case Nil
    then show ?thesis using hd by (simp add: bullet_entries_def)
  next
    case (Cons e es)
    then have ne: "?bs \<noteq> []" by simp
    have "\<forall>x\<in>set ?bs. CHR 0x0A \<notin> set x" using assms by auto
    from split_on_join [OF ne this]
    have "split_on CHR 0x0A (js_join ''\<newline>'' ?bs) = ?bs" .
    with hd show ?thesis
      by (simp add: bullet_entries_def filter_map o_def)
  qed
qed

subsection \<open>Replacement\<close>

lemma get_substitution_plain:
  "CHR ''$'' \<notin> set r \<Longrightarrow> get_substitution m p f r = r"
  by (induction m p f r rule: get_substitution.induct) auto

lemma split_first_Some:
  "split_first pat s = Some (a, b) \<Longrightarrow> s = a @ pat @ b"
proof (induction s arbitrary: a)
  case Nil
  then show ?case by (simp split: if_splits)
next
  case (Cons c cs)
  show ?case
  proof (cases "prefix pat (c # cs)")
    case True
    then obtain r where r: "c # cs = pat @ r" by (auto simp: prefix_def)
    then have "drop (length pat) (c # cs) = r" by simp
    moreover from True Cons.prems have "a = []" "b = drop (length pat) (c # cs)" by auto
    ultimately show ?thesis using r by simp
  next
    case False
    with Cons.prems obtain a' where "split_first pat cs = Some (a', b)" "a = c # a'"
      by (auto split: option.splits)
    with Cons.IH show ?thesis by simp
  qed
qed

lemma split_first_None:
  "split_first pat s = None \<Longrightarrow> s \<noteq> a @ pat @ b"
proof (induction s arbitrary: a)
  case Nil
  then show ?case by (simp split: if_splits)
next
  case (Cons c cs)
  then have np: "\<not> prefix pat (c # cs)" and rest: "split_first pat cs = None"
    by (auto split: if_splits option.splits)
  show ?case
  proof (cases a)
    case Nil
    with np show ?thesis by (auto simp: prefix_def)
  next
    case (Cons x xs)
    with Cons.IH [OF rest, of xs] show ?thesis by auto
  qed
qed

lemma js_replace_literal:
  assumes "CHR ''$'' \<notin> set replacement"
  shows "js_replace pat replacement s =
           (case split_first pat s of None \<Rightarrow> s | Some (a, b) \<Rightarrow> a @ replacement @ b)"
  using assms by (simp add: js_replace_def get_substitution_plain split: option.splits)

subsection \<open>Lower case and concrete paths\<close>

lemma toLowerCase_ascii:
  "list_all is_ascii s \<Longrightarrow> toLowerCase unicodeLower s = map ascii_lower s"
  by (simp add: toLowerCase_def)

lemma traversal_examples:
  "''..'' \<in> set (split_on CHR ''/'' ''../../../secret.md'') \<and>
   path_join [path_join [cwd demo_fs, ''context-template'', ''examples''], ''../../../secret.md''] = ''/srv/secret.md'' \<and>
   \<not> inside (path_join [cwd demo_fs, ''context-template'', ''examples'']) ''/srv/secret.md'' \<and>
   files demo_fs ''/srv/secret.md'' = Some ''s3cret''"
  by code_simp

lemma lower_Secret: "toLowerCase unicodeLower ''../../Secret'' = ''../../secret''"
proof -
  have "list_all is_ascii ''../../Secret''" by code_simp
  from toLowerCase_ascii [OF this] have "toLowerCase unicodeLower ''../../Secret'' = map ascii_lower ''../../Secret''" .
  also have "map ascii_lower ''../../Secret'' = ''../../secret''" by code_simp
  finally show ?thesis .
qed

lemma traversal_standards:
  "''..'' \<in> set (split_on CHR ''/'' ''../../Secret'') \<and>
   path_join [cwd demo_fs, ''standards'', toLowerCase unicodeLower ''../../Secret'' @ ''.md''] = ''/srv/secret.md'' \<and>
   \<not> inside (path_join [cwd demo_fs, ''standards'']) ''/srv/secret.md''"
  unfolding lower_Secret by code_simp

subsection \<open>The server that \<^verbatim>\<open>getServer\<close> builds\<close>

text \<open>
  Whatever the store holds, \<^verbatim>\<open>getServer\<close> leaves its objects as they are and adds one
  object at the next free address; what is registered on it does not depend on the
  store.
\<close>

lemma registerResource_last:
  "registerResource (length h) r (h @ [s]) = h @ [s\<lparr>resources := resources s @ [r]\<rparr>]"
  by (simp add: registerResource_def)

lemma registerPrompt_last:
  "registerPrompt (length h) n cb (h @ [s]) = h @ [s\<lparr>prompts := prompts s @ [(n, cb)]\<rparr>]"
  by (simp add: registerPrompt_def)

lemma getServer_eq:
  "getServer unicodeLower h =
     (h @ [\<lparr>server_name = ''personal-mcp-server'', server_version = ''1.0.0'',
             resources =
               [Template ''greeting'' ''greeting://{name}'' greeting,
                Resource ''core-principles'' ''principles://core'' core_principles,
                Template ''language-standards'' ''standards://language/{languageName}''
                  (language_standards unicodeLower),
                Resource ''claude-rules'' ''rules://claude.md'' claude_rules,
                Resource ''prp-base-template'' ''templates://prp_base.md'' prp_base_template,
                Template ''examples'' ''examples://{exampleName}'' examples],
             prompts = [(''generate-prp'', generate_prp), (''execute-prp'', execute_prp)]\<rparr>],
      length h)"
  unfolding getServer_def new_McpServer_def Let_def prod.case
    registerResource_last registerPrompt_last
  by (simp only: mcp_server.simps append.simps)

lemma getServer_address: "snd (getServer unicodeLower h) = length h"
  by (simp add: getServer_eq)

lemma getServer_keeps: "take (length h) (fst (getServer unicodeLower h)) = h"
  by (simp add: getServer_eq)

lemma getServer_same:
  "fst (getServer unicodeLower h) ! snd (getServer unicodeLower h) =
     fst (getServer unicodeLower h') ! snd (getServer unicodeLower h')"
  by (simp add: getServer_eq)

lemma getServer_resources:
  "resources (fst (getServer unicodeLower h) ! snd (getServer unicodeLower h)) =
     [Template ''greeting'' ''greeting://{name}'' greeting,
      Resource ''core-principles'' ''principles://core'' core_principles,
      Template ''language-standards'' ''standards://language/{languageName}''
        (language_standards unicodeLower),
      Resource ''claude-rules'' ''rules://claude.md'' claude_rules,
      Resource ''prp-base-template'' ''templates://prp_base.md'' prp_base_template,
      Template ''examples'' ''examples://{exampleName}'' examples]"
  by (simp add: getServer_eq)

lemma getServer_prompts:
  "prompts (fst (getServer unicodeLower h) ! snd (getServer unicodeLower h)) =
     [(''generate-prp'', generate_prp), (''execute-prp'', execute_prp)]"
  by (simp add: getServer_eq)

subsection \<open>Routing a request for a resource with a fixed path\<close>

lemma no_capture:
  "capture ''greeting://{name}'' ''rules://claude.md'' = None"
  "capture ''standards://language/{languageName}'' ''rules://claude.md'' = None"
  "capture ''greeting://{name}'' ''templates://prp_base.md'' = None"
  "capture ''standards://language/{languageName}'' ''templates://prp_base.md'' = None"
  by code_simp+

lemma route_claude_rules:
  "route (resources (fst (getServer unicodeLower h) ! snd (getServer unicodeLower h)))
     ''rules://claude.md'' = Some claude_rules"
  unfolding getServer_resources by (simp add: no_capture)

lemma route_prp_base_template:
  "route (resources (fst (getServer unicodeLower h) ! snd (getServer unicodeLower h)))
     ''templates://prp_base.md'' = Some prp_base_template"
  unfolding getServer_resources by (simp add: no_capture)

lemma app_post_dispatch:
  assumes "route (resources (fst (getServer unicodeLower (servers w)) ! snd (getServer unicodeLower (servers w)))) u
             = Some handler"
  shows "snd (app_post unicodeLower dispatch w (JObject [(''id'', i), (''uri'', JString u)])) =
           (case handler (disk w) u of
              Inl e \<Rightarrow>
                \<lparr>statusCode = 500, headersSent = True, writableEnded = True,
                 body = [Stringified
                           (JObject
                              [(''jsonrpc'', JString ''2.0''),
                               (''error'',
                                JObject [(''code'', JNumber (- 32603)),
                                         (''message'', JString ''Internal server error'')]),
                               (''id'', JNull)])]\<rparr>
            | Inr cs \<Rightarrow>
                \<lparr>statusCode = 200, headersSent = True, writableEnded = True,
                 body = [Stringified
                           (JObject
                              [(''id'', i),
                               (''result'',
                                JObject [(''contents'', JArray (map content_json cs))])])]\<rparr>)"
proof -
  obtain h a where g: "getServer unicodeLower (servers w) = (h, a)" by (cases "getServer unicodeLower (servers w)")
  with assms have r: "route (resources (h ! a)) u = Some handler" by simp
  have m: "member (JObject [(''id'', i), (''uri'', JString u)]) ''id'' = Some i"
    "member (JObject [(''id'', i), (''uri'', JString u)]) ''uri'' = Some (JString u)"
    by simp_all
  show ?thesis
    unfolding app_post_def g Let_def prod.case dispatch_def m
    by (simp add: r res_json_def res_end_def res_status_def fresh_response_def split: sum.splits)
qed

lemma literal_transport_local:
  "h ! a = h' ! a' \<Longrightarrow> snd (literal_transport h a fs r res) = snd (literal_transport h' a' fs r res)"
  by (simp add: literal_transport_def Let_def split: json.splits option.splits sum.splits)

section \<open>The language standards resource\<close>

text \<open>
  Claim C1. A request to \<^verbatim>\<open>standards://language/{languageName}\<close> lower-cases the
  captured name and reads \<^verbatim>\<open>standards/<lower-cased name>.md\<close> under the working
  directory. When the read succeeds the answer is the file text with media type
  \<^verbatim>\<open>text/markdown\<close>; when it fails the answer is still a success, with the text
  \<^verbatim>\<open>No specific coding standards found for '<name>'.\<close> built from the name as it was
  captured, and media type \<^verbatim>\<open>text/plain\<close>. This holds for every name and whatever the
  case tables of the runtime are; for a name of ASCII characters the lower-cased name
  is the name with \<^verbatim>\<open>A\<close> to \<^verbatim>\<open>Z\<close> replaced by \<^verbatim>\<open>a\<close> to \<^verbatim>\<open>z\<close>.
\<close>

theorem language_standards_read:
  assumes "first_of_array languageName = Some name"
  shows "(readFile fs (path_join [cwd fs, ''standards'', toLowerCase unicodeLower name @ ''.md'']) = Inr t \<longrightarrow>
            language_standards unicodeLower fs href languageName =
              Inr [\<lparr>uri = href, content_text = t, mimeType = Some ''text/markdown''\<rparr>]) \<and>
         (readFile fs (path_join [cwd fs, ''standards'', toLowerCase unicodeLower name @ ''.md'']) = Inl e \<longrightarrow>
            language_standards unicodeLower fs href languageName =
              Inr [\<lparr>uri = href,
                    content_text = ''No specific coding standards found for '' @ quote @ name @ quote @ ''.'',
                    mimeType = Some ''text/plain''\<rparr>]) \<and>
         (list_all is_ascii name \<longrightarrow> toLowerCase unicodeLower name = map ascii_lower name)"
  using assms by (simp add: language_standards_def toLowerCase_def)

text \<open>
  The two runs of the specification: \<^verbatim>\<open>Go\<close> resolves to \<^verbatim>\<open>standards/go.md\<close>, and
  \<^verbatim>\<open>Nonexistent\<close> gets the placeholder text. With a case table for Latin-1, a name
  that starts with a capital E with an acute accent (the bytes C3 89) resolves to the
  file whose name starts with the small letter (C3 A9).
\<close>

theorem language_standards_read_witness:
  "first_of_array (Single ''Go'') = Some ''Go'' \<and>
   readFile demo_fs (path_join [cwd demo_fs, ''standards'', toLowerCase latin1_lower ''Go'' @ ''.md'']) =
     Inr ''## Coding Standards (Go)'' \<and>
   language_standards latin1_lower demo_fs ''standards://language/Go'' (Single ''Go'') =
     Inr [\<lparr>uri = ''standards://language/Go'', content_text = ''## Coding Standards (Go)'',
           mimeType = Some ''text/markdown''\<rparr>] \<and>
   first_of_array (Single ''Nonexistent'') = Some ''Nonexistent'' \<and>
   readFile demo_fs (path_join [cwd demo_fs, ''standards'', toLowerCase latin1_lower ''Nonexistent'' @ ''.md'']) =
     Inl (SystemError ''/srv/mcp/standards/nonexistent.md'') \<and>
   language_standards latin1_lower demo_fs ''standards://language/Nonexistent'' (Single ''Nonexistent'') =
     Inr [\<lparr>uri = ''standards://language/Nonexistent'',
           content_text = ''No specific coding standards found for 'Nonexistent'.'',
           mimeType = Some ''text/plain''\<rparr>] \<and>
   first_of_array (Single ([CHR 0xC3, CHR 0x89] @ ''COLE'')) = Some ([CHR 0xC3, CHR 0x89] @ ''COLE'') \<and>
   toLowerCase latin1_lower ([CHR 0xC3, CHR 0x89] @ ''COLE'') = [CHR 0xC3, CHR 0xA9] @ ''cole'' \<and>
   readFile demo_fs
     (path_join [cwd demo_fs, ''standards'', toLowerCase latin1_lower ([CHR 0xC3, CHR 0x89] @ ''COLE'') @ ''.md'']) =
     Inr ''## Normes'' \<and>
   language_standards latin1_lower demo_fs ''standards://language/%C3%89COLE''
       (Single ([CHR 0xC3, CHR 0x89] @ ''COLE'')) =
     Inr [\<lparr>uri = ''standards://language/%C3%89COLE'', content_text = ''## Normes'',
           mimeType = Some ''text/markdown''\<rparr>]"
proof -
  have a: "first_of_array (Single ''Go'') = Some ''Go''" by simp
  have b: "first_of_array (Single ''Nonexistent'') = Some ''Nonexistent''" by simp
  have c: "first_of_array (Single ([CHR 0xC3, CHR 0x89] @ ''COLE'')) = Some ([CHR 0xC3, CHR 0x89] @ ''COLE'')"
    by simp
  have r1: "readFile demo_fs (path_join [cwd demo_fs, ''standards'', toLowerCase latin1_lower ''Go'' @ ''.md'']) =
              Inr ''## Coding Standards (Go)''"
    by code_simp
  have r2: "readFile demo_fs (path_join [cwd demo_fs, ''standards'', toLowerCase latin1_lower ''Nonexistent'' @ ''.md'']) =
              Inl (SystemError ''/srv/mcp/standards/nonexistent.md'')"
    by code_simp
  have l3: "toLowerCase latin1_lower ([CHR 0xC3, CHR 0x89] @ ''COLE'') = [CHR 0xC3, CHR 0xA9] @ ''cole''"
    by code_simp
  have r3: "readFile demo_fs
     (path_join [cwd demo_fs, ''standards'', toLowerCase latin1_lower ([CHR 0xC3, CHR 0x89] @ ''COLE'') @ ''.md'']) =
     Inr ''## Normes''"
    by code_simp
  have q: "''No specific coding standards found for '' @ quote @ ''Nonexistent'' @ quote @ ''.'' =
             ''No specific coding standards found for 'Nonexistent'.''"
    by (simp add: quote_def)
  have c1: "language_standards latin1_lower demo_fs ''standards://language/Go'' (Single ''Go'') =
     Inr [\<lparr>uri = ''standards://language/Go'', content_text = ''## Coding Standards (Go)'',
           mimeType = Some ''text/markdown''\<rparr>]"
    using language_standards_read [OF a, of demo_fs latin1_lower "''## Coding Standards (Go)''"] r1 by blast
  have c2: "language_standards latin1_lower demo_fs ''standards://language/Nonexistent'' (Single ''Nonexistent'') =
     Inr [\<lparr>uri = ''standards://language/Nonexistent'',
           content_text = ''No specific coding standards found for 'Nonexistent'.'',
           mimeType = Some ''text/plain''\<rparr>]"
    using language_standards_read [OF b, of demo_fs latin1_lower _ "''standards://language/Nonexistent''"
        "SystemError ''/srv/mcp/standards/nonexistent.md''"] r2
    unfolding q by blast
  have c3: "language_standards latin1_lower demo_fs ''standards://language/%C3%89COLE''
       (Single ([CHR 0xC3, CHR 0x89] @ ''COLE'')) =
     Inr [\<lparr>uri = ''standards://language/%C3%89COLE'', content_text = ''## Normes'',
           mimeType = Some ''text/markdown''\<rparr>]"
    using language_standards_read [OF c, of demo_fs latin1_lower "''## Normes''"] r3 by blast
  from a b c r1 r2 l3 r3 c1 c2 c3 show ?thesis by blast
qed

section \<open>The prompt that generates a PRP\<close>

text \<open>
  Claim C2. The claim is that, for every \<open>initialContent\<close>, the placeholder phrase of the
  template is replaced literally by \<open>initialContent\<close>. The handler calls
  \<^verbatim>\<open>String.prototype.replace\<close> with \<open>initialContent\<close> as the replacement text, which
  expands dollar patterns in it: with the template
  \<^verbatim>\<open>## Goal\n<placeholder>\n## Why\<close> the content \<^verbatim>\<open>Save $$ per seat\<close> arrives as
  \<^verbatim>\<open>Save $ per seat\<close>, and \<^verbatim>\<open>Keep $& as is\<close> brings the placeholder phrase back.
\<close>

theorem generate_prp_dollar_patterns:
  "generate_prp demo_fs ''Save $$ per seat'' =
     Inr [\<lparr>role = ''user'', content_type = ''text'',
           message_text = ''## Goal\<newline>Save $ per seat\<newline>## Why''\<rparr>] \<and>
   generate_prp demo_fs ''Keep $& as is'' =
     Inr [\<lparr>role = ''user'', content_type = ''text'',
           message_text =
             ''## Goal\<newline>Keep [What needs to be built - be specific about the end state and desires] as is\<newline>## Why''\<rparr>] \<and>
   readFile demo_fs (path_join [cwd demo_fs, ''context-template'', ''PRPs'', ''templates'', ''prp_base.md'']) =
     Inr (''## Goal\<newline>'' @ placeholder @ ''\<newline>## Why'')"
  by code_simp

text \<open>
  For an \<open>initialContent\<close> without a dollar sign the replacement is literal: the first
  occurrence of the placeholder phrase is replaced and nothing else changes, and a
  template without the phrase is returned as it is.
\<close>

theorem generate_prp_plain_content:
  assumes "readFile fs (path_join [cwd fs, ''context-template'', ''PRPs'', ''templates'', ''prp_base.md'']) = Inr template"
    and "CHR ''$'' \<notin> set initialContent"
  shows "(\<forall>a b. split_first placeholder template = Some (a, b) \<longrightarrow>
            template = a @ placeholder @ b \<and>
            generate_prp fs initialContent =
              Inr [\<lparr>role = ''user'', content_type = ''text'', message_text = a @ initialContent @ b\<rparr>]) \<and>
         (split_first placeholder template = None \<longrightarrow>
            (\<forall>a b. template \<noteq> a @ placeholder @ b) \<and>
            generate_prp fs initialContent =
              Inr [\<lparr>role = ''user'', content_type = ''text'', message_text = template\<rparr>])"
  using assms
  by (auto simp: generate_prp_def js_replace_literal split_first_Some dest: split_first_None)

theorem generate_prp_plain_content_witness:
  "readFile demo_fs (path_join [cwd demo_fs, ''context-template'', ''PRPs'', ''templates'', ''prp_base.md'']) =
     Inr (''## Goal\<newline>'' @ placeholder @ ''\<newline>## Why'') \<and>
   CHR ''$'' \<notin> set ''Build a login page'' \<and>
   split_first placeholder (''## Goal\<newline>'' @ placeholder @ ''\<newline>## Why'') =
     Some (''## Goal\<newline>'', ''\<newline>## Why'') \<and>
   generate_prp demo_fs ''Build a login page'' =
     Inr [\<lparr>role = ''user'', content_type = ''text'',
           message_text = ''## Goal\<newline>Build a login page\<newline>## Why''\<rparr>]"
proof -
  have r: "readFile demo_fs (path_join [cwd demo_fs, ''context-template'', ''PRPs'', ''templates'', ''prp_base.md'']) =
     Inr (''## Goal\<newline>'' @ placeholder @ ''\<newline>## Why'')"
    by code_simp
  have d: "CHR ''$'' \<notin> set ''Build a login page''" by simp
  have s: "split_first placeholder (''## Goal\<newline>'' @ placeholder @ ''\<newline>## Why'') =
     Some (''## Goal\<newline>'', ''\<newline>## Why'')"
    by code_simp
  from generate_prp_plain_content [OF r d] s
  have "generate_prp demo_fs ''Build a login page'' =
     Inr [\<lparr>role = ''user'', content_type = ''text'',
           message_text = ''## Goal\<newline>'' @ ''Build a login page'' @ ''\<newline>## Why''\<rparr>]"
    by blast
  with r d s show ?thesis by simp
qed

section \<open>A captured value that is an array\<close>

text \<open>
  Claim C3. The claim is that each of the three templated resources uses the first
  value when the captured value is an array. Only the language standards handler does
  so. The examples handler passes the array on to \<^verbatim>\<open>path.join\<close> and fails with a type
  error, also where the first value names a readable example; the greeting handler
  interpolates all the values, joined by commas.
\<close>

theorem multi_value_capture_not_first:
  "examples fs href (Multi vs) = Inl (TypeError ''The path argument must be of type string'') \<and>
   greeting fs href (Multi [a, b]) =
     Inr [\<lparr>uri = href,
           content_text = ''Hello, '' @ a @ '','' @ b @ ''! This is your personal MCP server.'',
           mimeType = None\<rparr>] \<and>
   examples demo_fs ''examples://cli.ts,x'' (Single ''cli.ts'') =
     Inr [\<lparr>uri = ''examples://cli.ts,x'', content_text = ''console.log(1)'',
           mimeType = Some ''text/plain''\<rparr>] \<and>
   examples demo_fs ''examples://cli.ts,x'' (Multi [''cli.ts'', ''x'']) \<noteq>
     examples demo_fs ''examples://cli.ts,x'' (Single ''cli.ts'')"
proof -
  have a: "examples fs href (Multi vs) = Inl (TypeError ''The path argument must be of type string'')"
    for fs href vs
    by (simp add: examples_def)
  have b: "greeting fs href (Multi [a, b]) =
     Inr [\<lparr>uri = href,
           content_text = ''Hello, '' @ a @ '','' @ b @ ''! This is your personal MCP server.'',
           mimeType = None\<rparr>]"
    by (simp add: greeting_def)
  have c: "examples demo_fs ''examples://cli.ts,x'' (Single ''cli.ts'') =
     Inr [\<lparr>uri = ''examples://cli.ts,x'', content_text = ''console.log(1)'',
           mimeType = Some ''text/plain''\<rparr>]"
    by code_simp
  show ?thesis unfolding a b c by simp
qed

text \<open>
  The language standards handler answers an array as it answers its first value.
\<close>

lemma language_standards_first_of_array:
  "language_standards unicodeLower fs href (Multi (v # vs)) =
     language_standards unicodeLower fs href (Single v)"
  by (simp add: language_standards_def)

section \<open>The examples resource\<close>

text \<open>
  Claim C4. When the captured value is the token \<^verbatim>\<open>list\<close>, the examples handler answers
  with a markdown text that has one bullet for each entry of the examples directory, in
  the order of the directory listing: the header line, then the lines \<^verbatim>\<open>- <entry>\<close>
  joined by newlines. Read back as a bullet list, the text gives exactly the listing
  (for entries that contain no newline themselves).
\<close>

theorem examples_list:
  assumes "readdir fs (path_join [cwd fs, ''context-template'', ''examples'']) = Inr entries"
  shows "examples fs href (Single ''list'') =
           Inr [\<lparr>uri = href,
                 content_text =
                   ''Available examples:\<newline>'' @ js_join ''\<newline>'' (map ((@) ''- '') entries),
                 mimeType = Some ''text/markdown''\<rparr>] \<and>
         ((\<forall>e\<in>set entries. CHR 0x0A \<notin> set e) \<longrightarrow>
            (\<exists>c. examples fs href (Single ''list'') = Inr [c] \<and> bullet_entries (content_text c) = entries))"
proof -
  let ?c = "\<lparr>uri = href,
             content_text =
               ''Available examples:\<newline>'' @ js_join ''\<newline>'' (map ((@) ''- '') entries),
             mimeType = Some ''text/markdown''\<rparr>"
  have eq: "examples fs href (Single ''list'') = Inr [?c]"
    using assms by (simp add: examples_def)
  have "bullet_entries (content_text ?c) = entries" if "\<forall>e\<in>set entries. CHR 0x0A \<notin> set e"
    using bullets_of_listing [OF that] by simp
  with eq show ?thesis by blast
qed

theorem examples_list_witness:
  "readdir demo_fs (path_join [cwd demo_fs, ''context-template'', ''examples'']) = Inr [''cli.ts'', ''README.md''] \<and>
   examples demo_fs ''examples://list'' (Single ''list'') =
     Inr [\<lparr>uri = ''examples://list'',
           content_text = ''Available examples:\<newline>- cli.ts\<newline>- README.md'',
           mimeType = Some ''text/markdown''\<rparr>] \<and>
   bullet_entries ''Available examples:\<newline>- cli.ts\<newline>- README.md'' = [''cli.ts'', ''README.md'']"
proof -
  have r: "readdir demo_fs (path_join [cwd demo_fs, ''context-template'', ''examples'']) = Inr [''cli.ts'', ''README.md'']"
    by code_simp
  have n: "\<forall>e\<in>set [''cli.ts'', ''README.md'']. CHR 0x0A \<notin> set e" by simp
  from examples_list [OF r, of "''examples://list''"] n
  show ?thesis using r by auto
qed

section \<open>The resources with a fixed path\<close>

text \<open>
  Claim C5. The handlers of \<^verbatim>\<open>rules://claude.md\<close> and \<^verbatim>\<open>templates://prp_base.md\<close> read
  \<^verbatim>\<open>context-template/CLAUDE.md\<close> and \<^verbatim>\<open>context-template/PRPs/templates/prp_base.md\<close>.
  When the read fails, the handler fails with the error of the read, and the request
  is answered with status 500 and nothing but the error envelope with code \<open>-32603\<close>:
  no content stands in for the file and nothing else is written. When the read
  succeeds, the request is answered with the success envelope that carries the text of
  the file.
\<close>

theorem fixed_path_resources:
  "(readFile (disk w) (path_join [cwd (disk w), ''context-template'', ''CLAUDE.md'']) = Inl e \<longrightarrow>
      claude_rules (disk w) href = Inl e \<and>
      snd (app_post unicodeLower dispatch w
             (JObject [(''id'', i), (''uri'', JString ''rules://claude.md'')])) =
        \<lparr>statusCode = 500, headersSent = True, writableEnded = True,
         body = [Stringified
                   (JObject
                      [(''jsonrpc'', JString ''2.0''),
                       (''error'',
                        JObject [(''code'', JNumber (- 32603)),
                                 (''message'', JString ''Internal server error'')]),
                       (''id'', JNull)])]\<rparr>) \<and>
   (readFile (disk w) (path_join [cwd (disk w), ''context-template'', ''CLAUDE.md'']) = Inr t \<longrightarrow>
      claude_rules (disk w) href = Inr [\<lparr>uri = href, content_text = t, mimeType = None\<rparr>] \<and>
      snd (app_post unicodeLower dispatch w
             (JObject [(''id'', i), (''uri'', JString ''rules://claude.md'')])) =
        \<lparr>statusCode = 200, headersSent = True, writableEnded = True,
         body = [Stringified
                   (JObject
                      [(''id'', i),
                       (''result'',
                        JObject
                          [(''contents'',
                            JArray [JObject [(''uri'', JString ''rules://claude.md''),
                                             (''text'', JString t)]])])])]\<rparr>) \<and>
   (readFile (disk w) (path_join [cwd (disk w), ''context-template'', ''PRPs'', ''templates'', ''prp_base.md'']) = Inl e \<longrightarrow>
      prp_base_template (disk w) href = Inl e \<and>
      snd (app_post unicodeLower dispatch w
             (JObject [(''id'', i), (''uri'', JString ''templates://prp_base.md'')])) =
        \<lparr>statusCode = 500, headersSent = True, writableEnded = True,
         body = [Stringified
                   (JObject
                      [(''jsonrpc'', JString ''2.0''),
                       (''error'',
                        JObject [(''code'', JNumber (- 32603)),
                                 (''message'', JString ''Internal server error'')]),
                       (''id'', JNull)])]\<rparr>) \<and>
   (readFile (disk w) (path_join [cwd (disk w), ''context-template'', ''PRPs'', ''templates'', ''prp_base.md'']) = Inr t \<longrightarrow>
      prp_base_template (disk w) href = Inr [\<lparr>uri = href, content_text = t, mimeType = None\<rparr>] \<and>
      snd (app_post unicodeLower dispatch w
             (JObject [(''id'', i), (''uri'', JString ''templates://prp_base.md'')])) =
        \<lparr>statusCode = 200, headersSent = True, writableEnded = True,
         body = [Stringified
                   (JObject
                      [(''id'', i),
                       (''result'',
                        JObject
                          [(''contents'',
                            JArray [JObject [(''uri'', JString ''templates://prp_base.md''),
                                             (''text'', JString t)]])])])]\<rparr>)"
proof -
  have c: "claude_rules fs u =
             (case readFile fs (path_join [cwd fs, ''context-template'', ''CLAUDE.md'']) of
                Inl e \<Rightarrow> Inl e
              | Inr t \<Rightarrow> Inr [\<lparr>uri = u, content_text = t, mimeType = None\<rparr>])" for fs u
    by (simp add: claude_rules_def)
  have p: "prp_base_template fs u =
             (case readFile fs (path_join [cwd fs, ''context-template'', ''PRPs'', ''templates'', ''prp_base.md'']) of
                Inl e \<Rightarrow> Inl e
              | Inr t \<Rightarrow> Inr [\<lparr>uri = u, content_text = t, mimeType = None\<rparr>])" for fs u
    by (simp add: prp_base_template_def)
  note post_c = app_post_dispatch [OF route_claude_rules, of unicodeLower w i]
  note post_p = app_post_dispatch [OF route_prp_base_template, of unicodeLower w i]
  show ?thesis
    unfolding post_c post_p c p by (simp add: content_json_def)
qed

theorem fixed_path_resources_witness:
  "readFile (disk bare_world) (path_join [cwd (disk bare_world), ''context-template'', ''CLAUDE.md'']) =
     Inl (SystemError ''/srv/mcp/context-template/CLAUDE.md'') \<and>
   claude_rules (disk bare_world) ''rules://claude.md'' =
     Inl (SystemError ''/srv/mcp/context-template/CLAUDE.md'') \<and>
   snd (app_post latin1_lower dispatch bare_world
          (JObject [(''id'', JNumber 7), (''uri'', JString ''rules://claude.md'')])) =
     \<lparr>statusCode = 500, headersSent = True, writableEnded = True,
      body = [Stringified
                (JObject
                   [(''jsonrpc'', JString ''2.0''),
                    (''error'',
                     JObject [(''code'', JNumber (- 32603)),
                              (''message'', JString ''Internal server error'')]),
                    (''id'', JNull)])]\<rparr> \<and>
   readFile (disk demo_world) (path_join [cwd (disk demo_world), ''context-template'', ''CLAUDE.md'']) =
     Inr ''# Rules'' \<and>
   snd (app_post latin1_lower dispatch demo_world
          (JObject [(''id'', JNumber 7), (''uri'', JString ''rules://claude.md'')])) =
     \<lparr>statusCode = 200, headersSent = True, writableEnded = True,
      body = [Stringified
                (JObject
                   [(''id'', JNumber 7),
                    (''result'',
                     JObject
                       [(''contents'',
                         JArray [JObject [(''uri'', JString ''rules://claude.md''),
                                          (''text'', JString ''# Rules'')]])])])]\<rparr> \<and>
   readFile (disk bare_world)
     (path_join [cwd (disk bare_world), ''context-template'', ''PRPs'', ''templates'', ''prp_base.md'']) =
     Inl (SystemError ''/srv/mcp/context-template/PRPs/templates/prp_base.md'') \<and>
   snd (app_post latin1_lower dispatch bare_world
          (JObject [(''id'', JNumber 7), (''uri'', JString ''templates://prp_base.md'')])) =
     \<lparr>statusCode = 500, headersSent = True, writableEnded = True,
      body = [Stringified
                (JObject
                   [(''jsonrpc'', JString ''2.0''),
                    (''error'',
                     JObject [(''code'', JNumber (- 32603)),
                              (''message'', JString ''Internal server error'')]),
                    (''id'', JNull)])]\<rparr> \<and>
   readFile (disk demo_world)
     (path_join [cwd (disk demo_world), ''context-template'', ''PRPs'', ''templates'', ''prp_base.md'']) =
     Inr ''## Goal\<newline>[What needs to be built - be specific about the end state and desires]\<newline>## Why'' \<and>
   prp_base_template (disk demo_world) ''templates://prp_base.md'' =
     Inr [\<lparr>uri = ''templates://prp_base.md'',
           content_text = ''## Goal\<newline>[What needs to be built - be specific about the end state and desires]\<newline>## Why'',
           mimeType = None\<rparr>]"
proof -
  have a: "readFile (disk bare_world) (path_join [cwd (disk bare_world), ''context-template'', ''CLAUDE.md'']) =
             Inl (SystemError ''/srv/mcp/context-template/CLAUDE.md'')"
    by code_simp
  have b: "readFile (disk demo_world) (path_join [cwd (disk demo_world), ''context-template'', ''CLAUDE.md'']) =
             Inr ''# Rules''"
    by code_simp
  have c: "readFile (disk bare_world)
     (path_join [cwd (disk bare_world), ''context-template'', ''PRPs'', ''templates'', ''prp_base.md'']) =
             Inl (SystemError ''/srv/mcp/context-template/PRPs/templates/prp_base.md'')"
    by code_simp
  have d: "readFile (disk demo_world)
     (path_join [cwd (disk demo_world), ''context-template'', ''PRPs'', ''templates'', ''prp_base.md'']) =
             Inr ''## Goal\<newline>[What needs to be built - be specific about the end state and desires]\<newline>## Why''"
    by code_simp
  show ?thesis
    using fixed_path_resources [of bare_world "SystemError ''/srv/mcp/context-template/CLAUDE.md''"
        "''rules://claude.md''" latin1_lower "JNumber 7"] a
      fixed_path_resources [of demo_world _ "''rules://claude.md''" latin1_lower "JNumber 7" "''# Rules''"] b
      fixed_path_resources [of bare_world "SystemError ''/srv/mcp/context-template/PRPs/templates/prp_base.md''"
        "''templates://prp_base.md''" latin1_lower "JNumber 7"] c
      fixed_path_resources [of demo_world _ "''templates://prp_base.md''" latin1_lower "JNumber 7"
        "''## Goal\<newline>[What needs to be built - be specific about the end state and desires]\<newline>## Why''"] d
    by blast
qed

section \<open>The endpoint\<close>

text \<open>
  Claim C6. When the handling of a POST request throws: if the headers of the response
  have not been sent, the endpoint answers with status 500 and the envelope with code
  \<open>-32603\<close>, message \<^verbatim>\<open>Internal server error\<close> and a null id; if they have been sent,
  the response is left as it is and no envelope is written.
\<close>

theorem post_unhandled_exception:
  assumes "getServer unicodeLower (servers w) = (h, server)"
    and "snd (handleRequest h server (disk w) req fresh_response) = (res, Some error)"
  shows "(\<not> headersSent res \<longrightarrow>
            snd (app_post unicodeLower handleRequest w req) =
              res\<lparr>statusCode := 500, headersSent := True, writableEnded := True,
                  body := body res @
                    [Stringified
                       (JObject
                          [(''jsonrpc'', JString ''2.0''),
                           (''error'',
                            JObject [(''code'', JNumber (- 32603)),
                                     (''message'', JString ''Internal server error'')]),
                           (''id'', JNull)])]\<rparr>) \<and>
         (headersSent res \<longrightarrow> snd (app_post unicodeLower handleRequest w req) = res)"
proof -
  obtain h' where "handleRequest h server (disk w) req fresh_response = (h', res, Some error)"
    using assms(2) by (cases "handleRequest h server (disk w) req fresh_response") simp
  with assms(1) show ?thesis
    by (simp add: app_post_def res_json_def res_end_def res_status_def)
qed

theorem post_unhandled_exception_witness:
  "snd (literal_transport (fst (getServer latin1_lower (servers demo_world)))
          (snd (getServer latin1_lower (servers demo_world))) (disk demo_world) JNull fresh_response) =
     (fresh_response, Some (TypeError ''malformed request'')) \<and>
   \<not> headersSent fresh_response \<and>
   snd (app_post latin1_lower literal_transport demo_world JNull) =
     \<lparr>statusCode = 500, headersSent = True, writableEnded = True,
      body = [Stringified
                (JObject
                   [(''jsonrpc'', JString ''2.0''),
                    (''error'',
                     JObject [(''code'', JNumber (- 32603)),
                              (''message'', JString ''Internal server error'')]),
                    (''id'', JNull)])]\<rparr> \<and>
   snd (late_failing_transport (fst (getServer latin1_lower (servers demo_world)))
          (snd (getServer latin1_lower (servers demo_world))) (disk demo_world) JNull fresh_response) =
     (\<lparr>statusCode = 200, headersSent = True, writableEnded = False,
       body = [Text ''event: message'']\<rparr>, Some (SystemError ''EPIPE'')) \<and>
   snd (app_post latin1_lower late_failing_transport demo_world JNull) =
     \<lparr>statusCode = 200, headersSent = True, writableEnded = False,
      body = [Text ''event: message'']\<rparr>"
proof -
  have g: "getServer latin1_lower (servers demo_world) =
             (fst (getServer latin1_lower (servers demo_world)),
              snd (getServer latin1_lower (servers demo_world)))"
    by simp
  have a: "snd (literal_transport (fst (getServer latin1_lower (servers demo_world)))
          (snd (getServer latin1_lower (servers demo_world))) (disk demo_world) JNull fresh_response) =
     (fresh_response, Some (TypeError ''malformed request''))"
    by (simp add: literal_transport_def)
  have b: "snd (late_failing_transport (fst (getServer latin1_lower (servers demo_world)))
          (snd (getServer latin1_lower (servers demo_world))) (disk demo_world) JNull fresh_response) =
     (\<lparr>statusCode = 200, headersSent = True, writableEnded = False,
       body = [Text ''event: message'']\<rparr>, Some (SystemError ''EPIPE''))"
    by (simp add: late_failing_transport_def fresh_response_def)
  note t = post_unhandled_exception
    [where unicodeLower = latin1_lower and w = demo_world and req = JNull
       and h = "fst (getServer latin1_lower (servers demo_world))"
       and server = "snd (getServer latin1_lower (servers demo_world))"]
  from t [where handleRequest = literal_transport, OF g a]
       t [where handleRequest = late_failing_transport, OF g b] a b
  show ?thesis by (simp add: fresh_response_def)
qed

text \<open>
  Claim C7. Every GET and every DELETE request is answered with status 405 and the
  error envelope with code \<open>-32000\<close> and message \<^verbatim>\<open>Method not allowed.\<close>; the envelope
  has no result.
\<close>

theorem get_delete_method_not_allowed:
  "app_get req =
     \<lparr>statusCode = 405, headersSent = True, writableEnded = True,
      body = [Stringified
                (JObject
                   [(''jsonrpc'', JString ''2.0''),
                    (''error'',
                     JObject [(''code'', JNumber (- 32000)),
                              (''message'', JString ''Method not allowed.'')]),
                    (''id'', JNull)])]\<rparr> \<and>
   app_delete req = app_get req \<and>
   (\<exists>env. body (app_get req) = [Stringified env] \<and>
      envelope_error env = Some (JNumber (- 32000), JString ''Method not allowed.'') \<and>
      envelope_result env = None \<and> member env ''id'' = Some JNull)"
  by (simp add: app_get_def app_delete_def res_end_def res_writeHead_def fresh_response_def
      envelope_error_def envelope_result_def)

text \<open>
  Claim C8. Every request gets a server of its own: \<^verbatim>\<open>getServer\<close> puts a new object at
  the next free address, leaves the objects of earlier requests untouched, and
  registers the same six resources and two prompts on it whatever the store holds. A
  request does not change the file system, and a response that the protocol library
  completes is passed on as it is. So, for a protocol library whose outcome depends on
  the store only through the server it is handed, the response to a request depends
  on the file system and the request alone: not on the servers earlier requests have
  left behind, whatever was done to them, and not on the console log. In particular
  the same request handled again, from the state the first handling left, gets the
  same response.
\<close>

theorem post_deterministic:
  assumes "\<And>h a h' a' fs r res.
             h ! a = h' ! a' \<Longrightarrow> snd (handleRequest h a fs r res) = snd (handleRequest h' a' fs r res)"
  shows "snd (getServer unicodeLower h) = length h \<and>
         take (length h) (fst (getServer unicodeLower h)) = h \<and>
         fst (getServer unicodeLower h) ! snd (getServer unicodeLower h) =
           fst (getServer unicodeLower h') ! snd (getServer unicodeLower h') \<and>
         length (resources (fst (getServer unicodeLower h) ! snd (getServer unicodeLower h))) = 6 \<and>
         length (prompts (fst (getServer unicodeLower h) ! snd (getServer unicodeLower h))) = 2 \<and>
         disk (fst (app_post unicodeLower handleRequest w req)) = disk w \<and>
         (snd (snd (handleRequest (fst (getServer unicodeLower (servers w)))
                      (snd (getServer unicodeLower (servers w))) (disk w) req fresh_response)) = None \<longrightarrow>
            snd (app_post unicodeLower handleRequest w req) =
              fst (snd (handleRequest (fst (getServer unicodeLower (servers w)))
                          (snd (getServer unicodeLower (servers w))) (disk w) req fresh_response))) \<and>
         (disk w' = disk w \<longrightarrow>
            snd (app_post unicodeLower handleRequest w' req) =
              snd (app_post unicodeLower handleRequest w req)) \<and>
         snd (app_post unicodeLower handleRequest (fst (app_post unicodeLower handleRequest w req)) req) =
           snd (app_post unicodeLower handleRequest w req)"
proof -
  have post: "snd (app_post unicodeLower handleRequest v req) =
      (case snd (handleRequest (fst (getServer unicodeLower (servers v)))
                   (snd (getServer unicodeLower (servers v))) (disk v) req fresh_response) of
         (res, None) \<Rightarrow> res
       | (res, Some error) \<Rightarrow>
           if \<not> headersSent res then
             res_json
               (JObject
                  [(''jsonrpc'', JString ''2.0''),
                   (''error'',
                    JObject [(''code'', JNumber (- 32603)),
                             (''message'', JString ''Internal server error'')]),
                   (''id'', JNull)])
               (res_status 500 res)
           else res)" for v
    by (simp add: app_post_def split: prod.splits option.splits)
  have d: "disk (fst (app_post unicodeLower handleRequest v req)) = disk v" for v
    by (simp add: app_post_def split: prod.splits option.splits)
  have same: "snd (handleRequest (fst (getServer unicodeLower (servers v')))
                   (snd (getServer unicodeLower (servers v'))) fs req fresh_response) =
              snd (handleRequest (fst (getServer unicodeLower (servers v)))
                   (snd (getServer unicodeLower (servers v))) fs req fresh_response)" for v v' fs
    by (rule assms) (rule getServer_same)
  have ni: "snd (app_post unicodeLower handleRequest v' req) = snd (app_post unicodeLower handleRequest v req)"
    if "disk v' = disk v" for v v'
    unfolding post that using same [of v' "disk v" v] by simp
  have ok: "snd (app_post unicodeLower handleRequest w req) =
              fst (snd (handleRequest (fst (getServer unicodeLower (servers w)))
                          (snd (getServer unicodeLower (servers w))) (disk w) req fresh_response))"
    if "snd (snd (handleRequest (fst (getServer unicodeLower (servers w)))
                      (snd (getServer unicodeLower (servers w))) (disk w) req fresh_response)) = None"
    unfolding post using that
    by (cases "snd (handleRequest (fst (getServer unicodeLower (servers w)))
                      (snd (getServer unicodeLower (servers w))) (disk w) req fresh_response)") simp
  have l6: "length (resources (fst (getServer unicodeLower h) ! snd (getServer unicodeLower h))) = 6"
    unfolding getServer_resources by simp
  have l2: "length (prompts (fst (getServer unicodeLower h) ! snd (getServer unicodeLower h))) = 2"
    unfolding getServer_prompts by simp
  from getServer_address [of unicodeLower h] getServer_keeps [of h unicodeLower]
    getServer_same [of unicodeLower h h'] l6 l2 d [of w] ok ni [of w' w] ni [OF d [of w]]
  show ?thesis by blast
qed

theorem post_deterministic_witness:
  "snd (app_post latin1_lower literal_transport demo_world (JString ''rules://claude.md'')) =
      \<lparr>statusCode = 200, headersSent = True, writableEnded = True,
       body = [Stringified
                 (JObject
                    [(''jsonrpc'', JString ''2.0''), (''id'', JNull),
                     (''result'',
                      JObject [(''contents'',
                        JArray [JObject [(''uri'', JString ''rules://claude.md''),
                                         (''text'', JString ''# Rules'')]])])])]\<rparr> \<and>
   length (servers (fst (app_post latin1_lower literal_transport demo_world (JString ''rules://claude.md'')))) = 1 \<and>
   length (resources
     (servers (fst (app_post latin1_lower literal_transport demo_world (JString ''rules://claude.md''))) ! 0)) = 0 \<and>
   disk (fst (app_post latin1_lower literal_transport demo_world (JString ''rules://claude.md''))) = disk demo_world \<and>
   snd (app_post latin1_lower literal_transport
          (fst (app_post latin1_lower literal_transport demo_world (JString ''rules://claude.md'')))
          (JString ''rules://claude.md'')) =
      \<lparr>statusCode = 200, headersSent = True, writableEnded = True,
       body = [Stringified
                 (JObject
                    [(''jsonrpc'', JString ''2.0''), (''id'', JNull),
                     (''result'',
                      JObject [(''contents'',
                        JArray [JObject [(''uri'', JString ''rules://claude.md''),
                                         (''text'', JString ''# Rules'')]])])])]\<rparr> \<and>
   console (fst (app_post latin1_lower literal_transport demo_world JNull)) \<noteq> console demo_world \<and>
   snd (app_post latin1_lower literal_transport
          (fst (app_post latin1_lower literal_transport demo_world JNull)) JNull) =
     snd (app_post latin1_lower literal_transport demo_world JNull)"
proof -
  have a: "snd (app_post latin1_lower literal_transport demo_world (JString ''rules://claude.md'')) =
      \<lparr>statusCode = 200, headersSent = True, writableEnded = True,
       body = [Stringified
                 (JObject
                    [(''jsonrpc'', JString ''2.0''), (''id'', JNull),
                     (''result'',
                      JObject [(''contents'',
                        JArray [JObject [(''uri'', JString ''rules://claude.md''),
                                         (''text'', JString ''# Rules'')]])])])]\<rparr>"
    by code_simp
  have s: "length (servers (fst (app_post latin1_lower literal_transport demo_world (JString ''rules://claude.md'')))) = 1"
    by code_simp
  have e: "length (resources
     (servers (fst (app_post latin1_lower literal_transport demo_world (JString ''rules://claude.md''))) ! 0)) = 0"
    by code_simp
  have c: "console (fst (app_post latin1_lower literal_transport demo_world JNull)) \<noteq> console demo_world"
    by code_simp
  note t = post_deterministic [of literal_transport, OF literal_transport_local]
  from t [of latin1_lower "[]" "[]" demo_world "JString ''rules://claude.md''" demo_world]
       t [of latin1_lower "[]" "[]" demo_world JNull demo_world] a s e c
  show ?thesis by simp
qed

section \<open>Paths outside the base directory\<close>

text \<open>
  Claim C9. The standards and the examples handler read the path that \<^verbatim>\<open>path.join\<close>
  makes of the base directory and the captured name, whatever that path is: whenever a
  file is readable there, its text is the answer. No check keeps the path inside the
  base directory, and there are names with \<^verbatim>\<open>..\<close> segments for which the path lies
  outside it and the file there is read.
\<close>

theorem path_traversal:
  "(name \<noteq> ''list'' \<longrightarrow>
      files fs (path_join [path_join [cwd fs, ''context-template'', ''examples''], name]) = Some t \<longrightarrow>
      examples fs href (Single name) =
        Inr [\<lparr>uri = href, content_text = t, mimeType = Some ''text/plain''\<rparr>]) \<and>
   (files fs (path_join [cwd fs, ''standards'', toLowerCase unicodeLower name @ ''.md'']) = Some t \<longrightarrow>
      language_standards unicodeLower fs href (Single name) =
        Inr [\<lparr>uri = href, content_text = t, mimeType = Some ''text/markdown''\<rparr>]) \<and>
   (\<exists>fs' name' t'.
      ''..'' \<in> set (split_on CHR ''/'' name') \<and>
      \<not> inside (path_join [cwd fs', ''context-template'', ''examples''])
          (path_join [path_join [cwd fs', ''context-template'', ''examples''], name']) \<and>
      files fs' (path_join [path_join [cwd fs', ''context-template'', ''examples''], name']) = Some t' \<and>
      examples fs' href (Single name') =
        Inr [\<lparr>uri = href, content_text = t', mimeType = Some ''text/plain''\<rparr>]) \<and>
   (\<exists>fs' name' t'.
      ''..'' \<in> set (split_on CHR ''/'' name') \<and>
      \<not> inside (path_join [cwd fs', ''standards''])
          (path_join [cwd fs', ''standards'', toLowerCase unicodeLower name' @ ''.md'']) \<and>
      files fs' (path_join [cwd fs', ''standards'', toLowerCase unicodeLower name' @ ''.md'']) = Some t' \<and>
      language_standards unicodeLower fs' href (Single name') =
        Inr [\<lparr>uri = href, content_text = t', mimeType = Some ''text/markdown''\<rparr>])"
proof -
  have ex: "examples fs href (Single name) =
        Inr [\<lparr>uri = href, content_text = t, mimeType = Some ''text/plain''\<rparr>]"
    if "name \<noteq> ''list''"
      "files fs (path_join [path_join [cwd fs, ''context-template'', ''examples''], name]) = Some t"
    for fs name t href
    using that by (simp add: examples_def readFile_def)
  have st: "language_standards unicodeLower fs href (Single name) =
        Inr [\<lparr>uri = href, content_text = t, mimeType = Some ''text/markdown''\<rparr>]"
    if "files fs (path_join [cwd fs, ''standards'', toLowerCase unicodeLower name @ ''.md'']) = Some t"
    for fs name t href
    using that by (simp add: language_standards_def readFile_def)
  have n: "''../../../secret.md'' \<noteq> ''list''" by simp
  have f1: "files demo_fs (path_join [path_join [cwd demo_fs, ''context-template'', ''examples''], ''../../../secret.md'']) = Some ''s3cret''"
    using traversal_examples by simp
  have f2: "files demo_fs (path_join [cwd demo_fs, ''standards'', toLowerCase unicodeLower ''../../Secret'' @ ''.md'']) = Some ''s3cret''"
    using traversal_standards traversal_examples by simp
  have e1: "\<exists>fs' name' t'.
      ''..'' \<in> set (split_on CHR ''/'' name') \<and>
      \<not> inside (path_join [cwd fs', ''context-template'', ''examples''])
          (path_join [path_join [cwd fs', ''context-template'', ''examples''], name']) \<and>
      files fs' (path_join [path_join [cwd fs', ''context-template'', ''examples''], name']) = Some t' \<and>
      examples fs' href (Single name') =
        Inr [\<lparr>uri = href, content_text = t', mimeType = Some ''text/plain''\<rparr>]"
    apply (rule exI [of _ demo_fs], rule exI [of _ "''../../../secret.md''"], rule exI [of _ "''s3cret''"])
    using traversal_examples ex [OF n f1, of href] f1 by simp
  have e2: "\<exists>fs' name' t'.
      ''..'' \<in> set (split_on CHR ''/'' name') \<and>
      \<not> inside (path_join [cwd fs', ''standards''])
          (path_join [cwd fs', ''standards'', toLowerCase unicodeLower name' @ ''.md'']) \<and>
      files fs' (path_join [cwd fs', ''standards'', toLowerCase unicodeLower name' @ ''.md'']) = Some t' \<and>
      language_standards unicodeLower fs' href (Single name') =
        Inr [\<lparr>uri = href, content_text = t', mimeType = Some ''text/markdown''\<rparr>]"
    apply (rule exI [of _ demo_fs], rule exI [of _ "''../../Secret''"], rule exI [of _ "''s3cret''"])
    using traversal_standards st [OF f2, of href] f2 by simp
  from ex st e1 e2 show ?thesis by blast
qed

theorem path_traversal_witness:
  "''../../../secret.md'' \<noteq> ''list'' \<and>
   ''..'' \<in> set (split_on CHR ''/'' ''../../../secret.md'') \<and>
   \<not> inside ''/srv/mcp/context-template/examples'' ''/srv/secret.md'' \<and>
   files demo_fs (path_join [path_join [cwd demo_fs, ''context-template'', ''examples''], ''../../../secret.md'']) = Some ''s3cret'' \<and>
   examples demo_fs ''examples://x'' (Single ''../../../secret.md'') =
     Inr [\<lparr>uri = ''examples://x'', content_text = ''s3cret'', mimeType = Some ''text/plain''\<rparr>] \<and>
   files demo_fs (path_join [cwd demo_fs, ''standards'', toLowerCase latin1_lower ''../../Secret'' @ ''.md'']) = Some ''s3cret'' \<and>
   language_standards latin1_lower demo_fs ''standards://language/x'' (Single ''../../Secret'') =
     Inr [\<lparr>uri = ''standards://language/x'', content_text = ''s3cret'', mimeType = Some ''text/markdown''\<rparr>]"
proof -
  have n: "''../../../secret.md'' \<noteq> ''list''" by simp
  have d: "''..'' \<in> set (split_on CHR ''/'' ''../../../secret.md'')" by code_simp
  have i: "\<not> inside ''/srv/mcp/context-template/examples'' ''/srv/secret.md''" by code_simp
  have f1: "files demo_fs (path_join [path_join [cwd demo_fs, ''context-template'', ''examples''], ''../../../secret.md'']) = Some ''s3cret''"
    by code_simp
  have f2: "files demo_fs (path_join [cwd demo_fs, ''standards'', toLowerCase latin1_lower ''../../Secret'' @ ''.md'']) = Some ''s3cret''"
    by code_simp
  from path_traversal [of "''../../../secret.md''" demo_fs "''s3cret''" "''examples://x''"] n f1
  have a: "examples demo_fs ''examples://x'' (Single ''../../../secret.md'') =
     Inr [\<lparr>uri = ''examples://x'', content_text = ''s3cret'', mimeType = Some ''text/plain''\<rparr>]"
    by blast
  from path_traversal [of "''../../Secret''" demo_fs "''s3cret''" "''standards://language/x''"] f2
  have b: "language_standards latin1_lower demo_fs ''standards://language/x'' (Single ''../../Secret'') =
     Inr [\<lparr>uri = ''standards://language/x'', content_text = ''s3cret'', mimeType = Some ''text/markdown''\<rparr>]"
    by blast
  from n d i f1 f2 a b show ?thesis by blast
qed

section \<open>The media type of an example\<close>

text \<open>
  Claim C10. For every captured name other than \<^verbatim>\<open>list\<close> whose file is read
  successfully, the examples handler answers with the text of the file and the media
  type \<^verbatim>\<open>text/plain\<close>.
\<close>

theorem example_read_plain:
  assumes "exampleName \<noteq> ''list''"
    and "readFile fs (path_join [path_join [cwd fs, ''context-template'', ''examples''], exampleName]) = Inr fileContent"
  shows "examples fs href (Single exampleName) =
           Inr [\<lparr>uri = href, content_text = fileContent, mimeType = Some ''text/plain''\<rparr>]"
  using assms by (simp add: examples_def Let_def)

theorem example_read_plain_witness:
  "''cli.ts'' \<noteq> ''list'' \<and>
   readFile demo_fs (path_join [path_join [cwd demo_fs, ''context-template'', ''examples''], ''cli.ts'']) = Inr ''console.log(1)'' \<and>
   examples demo_fs ''examples://cli.ts'' (Single ''cli.ts'') =
     Inr [\<lparr>uri = ''examples://cli.ts'', content_text = ''console.log(1)'', mimeType = Some ''text/plain''\<rparr>]"
proof -
  have n: "''cli.ts'' \<noteq> ''list''" by simp
  have r: "readFile demo_fs (path_join [path_join [cwd demo_fs, ''context-template'', ''examples''], ''cli.ts'']) = Inr ''console.log(1)''"
    by code_simp
  from example_read_plain [OF n r] n r show ?thesis by simp
qed

end
